theory Spec2Isabelle
  imports Main "HOL-Library.Word"
begin

section \<open>Python values and errors\<close>

text \<open>
  The module \<open>CTFd/config.py\<close> resolves the server configuration from an INI file and
  the process environment. A string is a list of characters, each a code point below 256
  (Latin-1, of which ASCII is the lower half). A value read through
  the configuration parser is a string, but an environment override is coerced and can
  be \<open>None\<close>, a boolean, an integer or a float, so values are a tagged union. A float
  is represented by the literal it was parsed from: \<open>PyFloat s\<close> stands for
  \<open>float(s)\<close>. Every exception of the source is a value of \<open>pyerror\<close>.
\<close>

datatype pyerror =
  ValueError | KeyError | TypeError | AttributeError | OSError | OverflowError | NoSectionError
  | InterpolationSyntaxError | InterpolationMissingOptionError | InterpolationDepthError

datatype pyval = PyNone | PyBool bool | PyInt int | PyFloat string | PyStr string

definition bind_res :: "pyerror + 'a \<Rightarrow> ('a \<Rightarrow> pyerror + 'b) \<Rightarrow> pyerror + 'b" where
  "bind_res m f = (case m of Inl e \<Rightarrow> Inl e | Inr x \<Rightarrow> f x)"

section \<open>String primitives of the Python library\<close>

definition isdecimal_char :: "char \<Rightarrow> bool" where
  \<comment> \<open>the decimal digits \<open>0\<close> to \<open>9\<close>, the only characters \<open>int\<close> and \<open>float\<close> read as digits\<close>
  "isdecimal_char c \<longleftrightarrow> 48 \<le> (of_char c :: nat) \<and> (of_char c :: nat) \<le> 57"

definition isdigit_char :: "char \<Rightarrow> bool" where
  \<comment> \<open>\<open>str.isdigit\<close> also accepts the superscript digits U+00B2, U+00B3 and U+00B9\<close>
  "isdigit_char c \<longleftrightarrow> isdecimal_char c \<or> (of_char c :: nat) \<in> {178, 179, 185}"

definition digit_val :: "char \<Rightarrow> nat" where
  "digit_val c = of_char c - 48"

definition isdigit :: "string \<Rightarrow> bool" where
  \<comment> \<open>\<open>str.isdigit\<close>: false on the empty string.\<close>
  "isdigit s \<longleftrightarrow> s \<noteq> [] \<and> list_all isdigit_char s"

definition isdecimal :: "string \<Rightarrow> bool" where
  \<comment> \<open>\<open>str.isdecimal\<close>\<close>
  "isdecimal s \<longleftrightarrow> s \<noteq> [] \<and> list_all isdecimal_char s"

fun replace_dot_once :: "string \<Rightarrow> string" where
  \<comment> \<open>\<open>value.replace(".", "", 1)\<close>: delete the first dot.\<close>
  "replace_dot_once [] = []"
| "replace_dot_once (c # cs) = (if c = CHR ''.'' then cs else c # replace_dot_once cs)"

definition lower_char :: "char \<Rightarrow> char" where
  "lower_char c =
     (if (65 \<le> (of_char c :: nat) \<and> (of_char c :: nat) \<le> 90)
         \<or> (192 \<le> (of_char c :: nat) \<and> (of_char c :: nat) \<le> 222 \<and> (of_char c :: nat) \<noteq> 215)
      then char_of ((of_char c :: nat) + 32) else c)"

definition lower :: "string \<Rightarrow> string" where
  "lower s = map lower_char s"

definition isspace_char :: "char \<Rightarrow> bool" where
  "isspace_char c \<longleftrightarrow> (of_char c :: nat) \<in> {9, 10, 11, 12, 13, 28, 29, 30, 31, 32, 133, 160}"

definition strip :: "string \<Rightarrow> string" where
  "strip s = dropWhile isspace_char (rev (dropWhile isspace_char (rev s)))"

definition truthy_words :: "string list" where
  "truthy_words = [''y'', ''yes'', ''t'', ''true'', ''on'', ''1'']"

definition falsy_words :: "string list" where
  "falsy_words = [''n'', ''no'', ''f'', ''false'', ''off'', ''0'']"

definition strtobool :: "string \<Rightarrow> pyerror + int" where
  \<comment> \<open>\<open>distutils.util.strtobool\<close>\<close>
  "strtobool val =
     (let v = lower val in
      if v \<in> set truthy_words then Inr 1
      else if v \<in> set falsy_words then Inr 0
      else Inl ValueError)"

fun digit_part :: "string \<Rightarrow> bool" where
  \<comment> \<open>digits, with single underscores allowed between two digits\<close>
  "digit_part [] = False"
| "digit_part [c] = isdecimal_char c"
| "digit_part (c # d # cs) =
     (isdecimal_char c \<and> (if d = CHR ''_'' then digit_part cs else digit_part (d # cs)))"

definition dec_value :: "string \<Rightarrow> nat" where
  "dec_value s = foldl (\<lambda>a c. 10 * a + digit_val c) 0 s"

definition unsign :: "string \<Rightarrow> bool \<times> string" where
  "unsign s =
     (case s of
        [] \<Rightarrow> (False, [])
      | c # cs \<Rightarrow> if c = CHR ''-'' then (True, cs)
                 else if c = CHR ''+'' then (False, cs) else (False, s))"

definition py_int :: "string \<Rightarrow> pyerror + int" where
  \<comment> \<open>\<open>int(s)\<close> for a string, base 10\<close>
  "py_int s =
     (let (neg, body) = unsign (strip s) in
      if digit_part body
      then (let n = int (dec_value (filter (\<lambda>c. c \<noteq> CHR ''_'') body))
            in Inr (if neg then - n else n))
      else Inl ValueError)"

definition split_at :: "(char \<Rightarrow> bool) \<Rightarrow> string \<Rightarrow> string \<times> string option" where
  \<comment> \<open>the text before the first character satisfying \<open>p\<close>, and the text after it, if any\<close>
  "split_at p s =
     (case dropWhile (\<lambda>c. \<not> p c) s of
        [] \<Rightarrow> (s, None)
      | _ # r \<Rightarrow> (takeWhile (\<lambda>c. \<not> p c) s, Some r))"

definition float_number :: "string \<Rightarrow> bool" where
  \<comment> \<open>\<open>[digits] . digits\<close> or \<open>digits [.]\<close>\<close>
  "float_number s =
     (case split_at (\<lambda>c. c = CHR ''.'') s of
        (ip, None) \<Rightarrow> digit_part ip
      | (ip, Some fp) \<Rightarrow>
          (ip = [] \<and> digit_part fp) \<or> (digit_part ip \<and> (fp = [] \<or> digit_part fp)))"

definition float_literal :: "string \<Rightarrow> bool" where
  \<comment> \<open>the syntax accepted by \<open>float(s)\<close>, after stripping\<close>
  "float_literal s =
     (let body = snd (unsign s) in
      lower body \<in> {''inf'', ''infinity'', ''nan''} \<or>
      (case split_at (\<lambda>c. c = CHR ''e'' \<or> c = CHR ''E'') body of
         (m, None) \<Rightarrow> float_number m
       | (m, Some ex) \<Rightarrow> float_number m \<and> digit_part (snd (unsign ex))))"

definition py_float :: "string \<Rightarrow> pyerror + pyval" where
  "py_float s = (if float_literal (strip s) then Inr (PyFloat s) else Inl ValueError)"

section \<open>Value coercion\<close>

text \<open>
  \<open>_FORCED_EXTRA_CONFIG_TYPES\<close> is a module-level dictionary from option names to type
  names; the coercion reads it, so it is a parameter \<open>forced\<close> of the model. The module
  itself leaves it empty.
\<close>

definition FORCED_EXTRA_CONFIG_TYPES :: "string \<rightharpoonup> string" where
  "FORCED_EXTRA_CONFIG_TYPES = Map.empty"

definition bool_of_strtobool :: "string \<Rightarrow> pyerror + pyval" where
  \<comment> \<open>\<open>bool(strtobool(value))\<close>\<close>
  "bool_of_strtobool value = bind_res (strtobool value) (\<lambda>n. Inr (PyBool (n \<noteq> 0)))"

definition forced_coercion :: "(string \<rightharpoonup> string) \<Rightarrow> string \<Rightarrow> string option
    \<Rightarrow> (pyerror + pyval) option" where
  \<comment> \<open>the \<open>if key in _FORCED_EXTRA_CONFIG_TYPES\<close> block; \<open>None\<close> when it falls through\<close>
  "forced_coercion forced value key =
     (case key of
        None \<Rightarrow> None
      | Some k \<Rightarrow>
          (case forced k of
             None \<Rightarrow> None
           | Some t \<Rightarrow>
               if t = ''str'' then Some (Inr (PyStr value))
               else if t = ''int'' then Some (bind_res (py_int value) (\<lambda>n. Inr (PyInt n)))
               else if t = ''float'' then Some (py_float value)
               else if t = ''bool'' then Some (bool_of_strtobool value)
               else None))"

definition process_string_var :: "(string \<rightharpoonup> string) \<Rightarrow> string \<Rightarrow> string option
    \<Rightarrow> pyerror + pyval" where
  "process_string_var forced value key =
     (case forced_coercion forced value key of
        Some r \<Rightarrow> r
      | None \<Rightarrow>
          if value = [] then Inr PyNone
          else if isdigit value then bind_res (py_int value) (\<lambda>n. Inr (PyInt n))
          else if isdigit (replace_dot_once value) then py_float value
          else (case bool_of_strtobool value of
                  Inr b \<Rightarrow> Inr b
                | Inl e \<Rightarrow> Inr (PyStr value)))"

definition process_boolean_str :: "pyval \<Rightarrow> pyerror + pyval" where
  "process_boolean_str value =
     (case value of
        PyBool b \<Rightarrow> Inr (PyBool b)
      | PyNone \<Rightarrow> Inr (PyBool False)
      | PyStr s \<Rightarrow> if s = [] then Inr PyNone else bool_of_strtobool s
      | _ \<Rightarrow> Inl AttributeError)"

definition empty_str_cast :: "pyval \<Rightarrow> pyval \<Rightarrow> pyval" where
  "empty_str_cast value dflt = (if value = PyStr [] then dflt else value)"

section \<open>The interpolating reader\<close>

text \<open>
  \<open>EnvInterpolation\<close> extends \<open>configparser.BasicInterpolation\<close>, and its \<open>before_get\<close>
  first calls the base class. The base class expands the stored text: \<open>%%\<close> becomes
  \<open>%\<close>, \<open>%(name)s\<close> is replaced by the stored value of option \<open>name\<close> of the same
  section, itself expanded when it contains \<open>%\<close>, to a nesting depth of 10; any other
  use of \<open>%\<close> and a reference to a missing option are errors. \<open>options\<close> maps the
  option names of the section to their stored values (the argument \<open>defaults\<close>).
\<close>

definition key_match :: "string \<Rightarrow> (string \<times> string) option" where
  \<comment> \<open>the pattern \<open>%(name)s\<close> with a non-empty name free of \<open>)\<close>, applied after the
      leading \<open>%(\<close>: the name and the text after \<open>)s\<close>\<close>
  "key_match s =
     (let name = takeWhile (\<lambda>c. c \<noteq> CHR '')'') s in
      case dropWhile (\<lambda>c. c \<noteq> CHR '')'') s of
        c # d # after \<Rightarrow> if name \<noteq> [] \<and> d = CHR ''s'' then Some (name, after) else None
      | _ \<Rightarrow> None)"

function interpolate_some :: "nat \<Rightarrow> (string \<rightharpoonup> string) \<Rightarrow> string \<Rightarrow> pyerror + string" where
  "interpolate_some depth options rest =
     (if depth > 10 then Inl InterpolationDepthError
      else
        (case rest of
           [] \<Rightarrow> Inr []
         | c # cs \<Rightarrow>
             if c \<noteq> CHR ''%'' then
               (case interpolate_some depth options cs of
                  Inl e \<Rightarrow> Inl e
                | Inr r \<Rightarrow> Inr (c # r))
             else
               (case cs of
                  [] \<Rightarrow> Inl InterpolationSyntaxError
                | d # ds \<Rightarrow>
                    if d = CHR ''%'' then
                      (case interpolate_some depth options ds of
                         Inl e \<Rightarrow> Inl e
                       | Inr r \<Rightarrow> Inr (CHR ''%'' # r))
                    else if d = CHR ''('' then
                      (case key_match ds of
                         None \<Rightarrow> Inl InterpolationSyntaxError
                       | Some (name, after) \<Rightarrow>
                           (case options name of
                              None \<Rightarrow> Inl InterpolationMissingOptionError
                            | Some v \<Rightarrow>
                                (case (if CHR ''%'' \<in> set v
                                       then interpolate_some (depth + 1) options v
                                       else Inr v) of
                                   Inl e \<Rightarrow> Inl e
                                 | Inr expanded \<Rightarrow>
                                     (case interpolate_some depth options after of
                                        Inl e \<Rightarrow> Inl e
                                      | Inr r \<Rightarrow> Inr (expanded @ r)))))
                    else Inl InterpolationSyntaxError)))"
  by pat_completeness auto

termination interpolate_some
proof -
  have shorter: "length after < length s" if "key_match s = Some (name, after)" for s name after
  proof -
    from that obtain c d where "dropWhile (\<lambda>c. c \<noteq> CHR '')'') s = c # d # after"
      by (auto simp: key_match_def Let_def split: list.splits if_splits)
    then have "length (c # d # after) \<le> length s"
      using length_dropWhile_le [of "\<lambda>c. c \<noteq> CHR '')''" s] by simp
    then show ?thesis by simp
  qed
  show ?thesis
    by (relation "measures [\<lambda>(depth, options, rest). 11 - depth,
                            \<lambda>(depth, options, rest). length rest]")
       (auto dest: shorter)
qed

declare interpolate_some.simps [simp del]

definition basic_before_get :: "(string \<rightharpoonup> string) \<Rightarrow> string \<Rightarrow> pyerror + string" where
  \<comment> \<open>\<open>BasicInterpolation.before_get\<close>\<close>
  "basic_before_get options value = interpolate_some 1 options value"

text \<open>
  \<open>EnvInterpolation.before_get\<close> then reads the environment variable named like the
  option. The environment is a map from names to strings.
\<close>

definition before_get :: "(string \<rightharpoonup> string) \<Rightarrow> (string \<rightharpoonup> string) \<Rightarrow> (string \<rightharpoonup> string)
    \<Rightarrow> string \<Rightarrow> string \<Rightarrow> pyerror + pyval" where
  "before_get forced env options option value =
     (case basic_before_get options value of
        Inl e \<Rightarrow> Inl e
      | Inr value' \<Rightarrow>
          (case env option of
             Some envvar \<Rightarrow>
               if value' = [] \<and> envvar \<noteq> [] then process_string_var forced envvar (Some option)
               else Inr (PyStr value')
           | None \<Rightarrow> Inr (PyStr value')))"

section \<open>Truthiness and formatting\<close>

text \<open>
  Three operations on floats belong to the interpreter's floating-point arithmetic and are
  parameters of the model: the truth value of a float, its printed form, and its
  truncation to an integer. Each takes the literal the float was parsed from.
\<close>

record float_ops =
  float_bool :: "string \<Rightarrow> bool"
  float_repr :: "string \<Rightarrow> string"
  float_trunc :: "string \<Rightarrow> pyerror + int"

definition truthy :: "float_ops \<Rightarrow> pyval \<Rightarrow> bool" where
  "truthy fo v =
     (case v of
        PyNone \<Rightarrow> False
      | PyBool b \<Rightarrow> b
      | PyInt n \<Rightarrow> n \<noteq> 0
      | PyFloat l \<Rightarrow> float_bool fo l
      | PyStr s \<Rightarrow> s \<noteq> [])"

definition py_or :: "float_ops \<Rightarrow> pyval \<Rightarrow> pyval \<Rightarrow> pyval" where
  \<comment> \<open>\<open>a or b\<close>\<close>
  "py_or fo a b = (if truthy fo a then a else b)"

definition digit_char :: "nat \<Rightarrow> char" where
  "digit_char d = char_of (48 + d)"

fun str_of_nat :: "nat \<Rightarrow> string" where
  "str_of_nat n =
     (if n < 10 then [digit_char n] else str_of_nat (n div 10) @ [digit_char (n mod 10)])"

declare str_of_nat.simps [simp del]

definition str_of_int :: "int \<Rightarrow> string" where
  "str_of_int i = (if i < 0 then CHR ''-'' # str_of_nat (nat (- i)) else str_of_nat (nat i))"

definition py_str :: "float_ops \<Rightarrow> pyval \<Rightarrow> string" where
  \<comment> \<open>\<open>str(v)\<close>, which is also how an f-string renders \<open>{v}\<close>\<close>
  "py_str fo v =
     (case v of
        PyNone \<Rightarrow> ''None''
      | PyBool b \<Rightarrow> (if b then ''True'' else ''False'')
      | PyInt n \<Rightarrow> str_of_int n
      | PyFloat l \<Rightarrow> float_repr fo l
      | PyStr s \<Rightarrow> s)"

definition py_int_val :: "float_ops \<Rightarrow> pyval \<Rightarrow> pyerror + int" where
  \<comment> \<open>\<open>int(v)\<close>\<close>
  "py_int_val fo v =
     (case v of
        PyNone \<Rightarrow> Inl TypeError
      | PyBool b \<Rightarrow> Inr (if b then 1 else 0)
      | PyInt n \<Rightarrow> Inr n
      | PyFloat l \<Rightarrow> float_trunc fo l
      | PyStr s \<Rightarrow> py_int s)"

section \<open>Reading the configuration file\<close>

text \<open>
  The parsed file maps each section name to the options visible in it, in file order,
  each with its stored value. \<open>world\<close> collects what the module reads: the parsed file,
  the environment, the forced-type dictionary and the float operations.
\<close>

record world =
  config_ini :: "string \<rightharpoonup> (string \<times> string) list"
  environ :: "string \<rightharpoonup> string"
  forced_types :: "string \<rightharpoonup> string"
  floats :: float_ops

definition getitem :: "world \<Rightarrow> string \<Rightarrow> string \<Rightarrow> pyerror + pyval" where
  \<comment> \<open>\<open>config_ini[sect][opt]\<close>\<close>
  "getitem w sect opt =
     (case config_ini w sect of
        None \<Rightarrow> Inl KeyError
      | Some sec \<Rightarrow>
          (case map_of sec opt of
             None \<Rightarrow> Inl KeyError
           | Some value \<Rightarrow> before_get (forced_types w) (environ w) (map_of sec) opt value))"

definition section_get :: "world \<Rightarrow> string \<Rightarrow> string \<Rightarrow> pyerror + pyval" where
  \<comment> \<open>\<open>config_ini[sect].get(opt)\<close>: a missing option gives \<open>None\<close>\<close>
  "section_get w sect opt =
     (case config_ini w sect of
        None \<Rightarrow> Inl KeyError
      | Some sec \<Rightarrow>
          (case map_of sec opt of
             None \<Rightarrow> Inr PyNone
           | Some value \<Rightarrow> before_get (forced_types w) (environ w) (map_of sec) opt value))"

definition section_getint :: "world \<Rightarrow> string \<Rightarrow> string \<Rightarrow> pyerror + pyval" where
  \<comment> \<open>\<open>config_ini[sect].getint(opt)\<close>: a missing option gives \<open>None\<close>, a present one is
      converted with \<open>int\<close>\<close>
  "section_getint w sect opt =
     (case config_ini w sect of
        None \<Rightarrow> Inl KeyError
      | Some sec \<Rightarrow>
          (case map_of sec opt of
             None \<Rightarrow> Inr PyNone
           | Some value \<Rightarrow>
               bind_res (before_get (forced_types w) (environ w) (map_of sec) opt value) (\<lambda>v.
               bind_res (py_int_val (floats w) v) (\<lambda>n. Inr (PyInt n)))))"

fun items_values :: "world \<Rightarrow> (string \<rightharpoonup> string) \<Rightarrow> (string \<times> string) list
    \<Rightarrow> pyerror + (string \<times> pyval) list" where
  "items_values w options [] = Inr []"
| "items_values w options ((k, value) # rest) =
     bind_res (before_get (forced_types w) (environ w) options k value) (\<lambda>v.
     bind_res (items_values w options rest) (\<lambda>vs. Inr ((k, v) # vs)))"

definition ini_items :: "world \<Rightarrow> string \<Rightarrow> pyerror + (string \<times> pyval) list" where
  \<comment> \<open>\<open>config_ini.items(sect)\<close>: the whole list is built before the caller iterates\<close>
  "ini_items w sect =
     (case config_ini w sect of
        None \<Rightarrow> Inl NoSectionError
      | Some sec \<Rightarrow> items_values w (map_of sec) sec)"

section \<open>The secret key\<close>

text \<open>
  The file \<open>.ctfd_secret_key\<close> is absent or holds bytes; opening it for reading can be
  refused; writing it can succeed, fail when the file is opened (nothing changes), or
  fail after the file was opened and truncated. \<open>os.urandom(n)\<close> takes \<open>n\<close> bytes from
  an entropy source.
\<close>

type_synonym byte = "8 word"

datatype write_behaviour = WriteOk | OpenFails | WriteFails

record filesystem =
  secret_file :: "byte list option"
  readable :: bool
  on_write :: write_behaviour

definition read_secret :: "filesystem \<Rightarrow> pyerror + byte list" where
  "read_secret fs =
     (case secret_file fs of
        None \<Rightarrow> Inl OSError
      | Some content \<Rightarrow> if readable fs then Inr content else Inl OSError)"

definition write_secret :: "filesystem \<Rightarrow> byte list \<Rightarrow> pyerror option \<times> filesystem" where
  "write_secret fs key =
     (case on_write fs of
        WriteOk \<Rightarrow> (None, fs\<lparr>secret_file := Some key\<rparr>)
      | OpenFails \<Rightarrow> (Some OSError, fs)
      | WriteFails \<Rightarrow> (Some OSError, fs\<lparr>secret_file := Some []\<rparr>))"

definition urandom :: "(nat \<Rightarrow> byte) \<Rightarrow> nat \<Rightarrow> byte list" where
  "urandom rnd n = map rnd [0..<n]"

definition gen_secret_key :: "(nat \<Rightarrow> byte) \<Rightarrow> filesystem \<Rightarrow> pyerror + (byte list \<times> filesystem)" where
  "gen_secret_key rnd fs =
     (case (case read_secret fs of
              Inr content \<Rightarrow> Inr (Some content)
            | Inl e \<Rightarrow> if e = OSError then Inr None else Inl e) of
        Inl e \<Rightarrow> Inl e
      | Inr key \<Rightarrow>
          if key = None \<or> key = Some [] then
            (let fresh = urandom rnd 64 in
             case write_secret fs fresh of
               (None, fs') \<Rightarrow> Inr (fresh, fs')
             | (Some e, fs') \<Rightarrow> if e = OSError then Inr (fresh, fs') else Inl e)
          else Inr (the key, fs))"

section \<open>The class body of ServerConfig\<close>



definition server_option :: "world \<Rightarrow> string \<Rightarrow> pyerror + pyval" where
  \<comment> \<open>\<open>empty_str_cast(config_ini["server"][opt])\<close>\<close>
  "server_option w opt = bind_res (getitem w ''server'' opt) (\<lambda>v. Inr (empty_str_cast v PyNone))"


definition cache_redis_url :: "float_ops \<Rightarrow> pyval \<Rightarrow> pyval \<Rightarrow> pyval \<Rightarrow> pyval \<Rightarrow> pyval \<Rightarrow> pyval
    \<Rightarrow> pyval \<Rightarrow> pyerror + pyval" where
  \<comment> \<open>the \<open>if REDIS_URL or REDIS_HOST is None: ... else: ...\<close> block; \<open>+=\<close> with a value
      that is not a string is a \<open>TypeError\<close>\<close>
  "cache_redis_url fo REDIS_URL REDIS_HOST REDIS_PROTOCOL REDIS_USER REDIS_PASSWORD REDIS_PORT
       REDIS_DB =
     (if truthy fo REDIS_URL \<or> REDIS_HOST = PyNone then Inr REDIS_URL
      else
        bind_res (Inr (py_str fo REDIS_PROTOCOL @ ''://'')) (\<lambda>u1.
        bind_res (if truthy fo REDIS_USER
                  then (case REDIS_USER of PyStr user \<Rightarrow> Inr (u1 @ user) | _ \<Rightarrow> Inl TypeError)
                  else Inr u1) (\<lambda>u2.
        bind_res (if truthy fo REDIS_PASSWORD
                  then Inr (u2 @ '':'' @ py_str fo REDIS_PASSWORD)
                  else Inr u2) (\<lambda>u3.
        Inr (PyStr (u3 @ ''@'' @ py_str fo REDIS_HOST @ '':'' @ py_str fo REDIS_PORT
                    @ ''/'' @ py_str fo REDIS_DB))))))"

definition CACHE_REDIS_URL :: "world \<Rightarrow> pyerror + pyval" where
  "CACHE_REDIS_URL w =
     bind_res (server_option w ''REDIS_URL'') (\<lambda>url.
     bind_res (server_option w ''REDIS_HOST'') (\<lambda>host.
     bind_res (server_option w ''REDIS_PROTOCOL'') (\<lambda>proto.
     bind_res (server_option w ''REDIS_USER'') (\<lambda>user.
     bind_res (server_option w ''REDIS_PASSWORD'') (\<lambda>password.
     bind_res (server_option w ''REDIS_PORT'') (\<lambda>port.
     bind_res (server_option w ''REDIS_DB'') (\<lambda>db.
     cache_redis_url (floats w) url host
       (py_or (floats w) proto (PyStr ''redis'')) user password
       (py_or (floats w) port (PyInt 6379))
       (py_or (floats w) db (PyInt 0)))))))))"

definition spec_cache_redis_url :: "string \<Rightarrow> string option \<Rightarrow> string option \<Rightarrow> string
    \<Rightarrow> string \<Rightarrow> string \<Rightarrow> string" where
  \<comment> \<open>the composition as the specification words it:
      \<open>protocol://[user[:password]@]host:port/db\<close>\<close>
  "spec_cache_redis_url protocol user password host port db =
     protocol @ ''://''
     @ (case user of
          None \<Rightarrow> []
        | Some u \<Rightarrow> u @ (case password of None \<Rightarrow> [] | Some p \<Rightarrow> '':'' @ p) @ ''@'')
     @ host @ '':'' @ port @ ''/'' @ db"

definition PERMANENT_SESSION_LIFETIME :: "world \<Rightarrow> pyerror + pyval" where
  "PERMANENT_SESSION_LIFETIME w =
     bind_res (section_getint w ''security'' ''PERMANENT_SESSION_LIFETIME'') (\<lambda>v.
     Inr (py_or (floats w) v (PyInt 604800)))"

definition FORCE_HTTPS :: "world \<Rightarrow> pyerror + pyval" where
  "FORCE_HTTPS w =
     bind_res (section_get w ''optional'' ''FORCE_HTTPS'') (\<lambda>v.
     process_boolean_str (empty_str_cast v (PyBool True)))"

section \<open>Merging the extra section\<close>

text \<open>
  The configuration object is the finite map of its attributes. \<open>hasattr(Config, k)\<close>
  asks whether \<open>k\<close> is one of them and \<open>setattr(Config, k, v)\<close> updates the map. The
  loop stops at the first colliding key with a \<open>ValueError\<close>; the object keeps what was
  set before.
\<close>

fun merge_extra :: "(string \<rightharpoonup> pyval) \<Rightarrow> (string \<times> pyval) list
    \<Rightarrow> pyerror option \<times> (string \<rightharpoonup> pyval)" where
  "merge_extra Config [] = (None, Config)"
| "merge_extra Config ((k, v) # rest) =
     (if Config k \<noteq> None then (Some ValueError, Config)
      else merge_extra (Config(k \<mapsto> v)) rest)"

definition load_extra :: "world \<Rightarrow> (string \<rightharpoonup> pyval) \<Rightarrow> pyerror option \<times> (string \<rightharpoonup> pyval)" where
  "load_extra w Config =
     (case ini_items w ''extra'' of
        Inl e \<Rightarrow> (Some e, Config)
      | Inr items \<Rightarrow> merge_extra Config items)"

section \<open>Properties of the value coercion\<close>

lemma digit_part_digits: "s \<noteq> [] \<Longrightarrow> list_all isdecimal_char s \<Longrightarrow> digit_part s"
proof (induction s rule: digit_part.induct)
  case 1 then show ?case by simp
next
  case (2 c) then show ?case by simp
next
  case (3 c d cs)
  then show ?case by (auto simp: isdecimal_char_def)
qed

lemma dropWhile_none: "\<forall>x\<in>set xs. \<not> P x \<Longrightarrow> dropWhile P xs = xs"
  by (cases xs) auto

lemma strip_no_space: "\<forall>c\<in>set s. \<not> isspace_char c \<Longrightarrow> strip s = s"
  by (simp add: strip_def dropWhile_none)

lemma digit_not_space: "isdecimal_char c \<Longrightarrow> \<not> isspace_char c"
  by (auto simp: isdecimal_char_def isspace_char_def)

lemma digit_not_special:
  "isdecimal_char c \<Longrightarrow> c \<noteq> CHR ''_'' \<and> c \<noteq> CHR ''-'' \<and> c \<noteq> CHR ''+'' \<and> c \<noteq> CHR ''.''
     \<and> c \<noteq> CHR ''e'' \<and> c \<noteq> CHR ''E''"
  by (auto simp: isdecimal_char_def)

lemma dot_not_space: "\<not> isspace_char CHR ''.''"
  by (simp add: isspace_char_def)

lemma unsign_digits: "list_all isdecimal_char s \<Longrightarrow> unsign s = (False, s)"
  by (cases s) (auto simp: unsign_def dest: digit_not_special)

lemma isdecimal_isdigit: "isdecimal s \<Longrightarrow> isdigit s"
  by (auto simp: isdecimal_def isdigit_def isdigit_char_def list_all_iff)

lemma py_int_digits:
  assumes "isdecimal s"
  shows "py_int s = Inr (int (dec_value s))"
proof -
  from assms have ne: "s \<noteq> []" and all: "list_all isdecimal_char s"
    by (simp_all add: isdecimal_def)
  from all have "\<forall>c\<in>set s. \<not> isspace_char c"
    by (auto simp: list_all_iff dest: digit_not_space)
  then have st: "strip s = s" by (rule strip_no_space)
  from all have flt: "filter (\<lambda>c. c \<noteq> CHR ''_'') s = s"
    by (auto simp: list_all_iff filter_id_conv dest: digit_not_special)
  show ?thesis
    by (simp add: py_int_def st unsign_digits [OF all] digit_part_digits [OF ne all] flt)
qed

lemma replace_dot_once_split:
  "list_all isdecimal_char (replace_dot_once s) \<Longrightarrow> \<not> list_all isdecimal_char s \<Longrightarrow>
   \<exists>a b. s = a @ CHR ''.'' # b \<and> list_all isdecimal_char a \<and> list_all isdecimal_char b"
proof (induction s)
  case Nil then show ?case by simp
next
  case (Cons c cs)
  show ?case
  proof (cases "c = CHR ''.''")
    case True
    with Cons.prems have "list_all isdecimal_char cs" by simp
    with True show ?thesis by (intro exI [of _ "[]"] exI [of _ cs]) simp
  next
    case False
    with Cons.prems have c: "isdecimal_char c" and r: "list_all isdecimal_char (replace_dot_once cs)"
      by simp_all
    with Cons.prems have "\<not> list_all isdecimal_char cs" by simp
    from Cons.IH [OF r this] obtain a b where
      "cs = a @ CHR ''.'' # b" "list_all isdecimal_char a" "list_all isdecimal_char b" by blast
    with c show ?thesis by (intro exI [of _ "c # a"] exI [of _ b]) simp
  qed
qed

lemma split_at_found:
  "\<forall>c\<in>set a. \<not> p c \<Longrightarrow> p d \<Longrightarrow> split_at p (a @ d # b) = (a, Some b)"
  by (simp add: split_at_def dropWhile_append3 takeWhile_tail)

lemma split_at_absent: "\<forall>c\<in>set s. \<not> p c \<Longrightarrow> split_at p s = (s, None)"
  by (simp add: split_at_def dropWhile_eq_Nil_conv [THEN iffD2] split: list.splits)

lemma float_literal_decimal:
  assumes a: "list_all isdecimal_char a" and b: "list_all isdecimal_char b" and ne: "a @ b \<noteq> []"
  shows "py_float (a @ CHR ''.'' # b) = Inr (PyFloat (a @ CHR ''.'' # b))"
proof -
  let ?s = "a @ CHR ''.'' # b"
  have chars: "\<forall>c\<in>set ?s. isdecimal_char c \<or> c = CHR ''.''"
    using a b by (auto simp: list_all_iff)
  have "\<forall>c\<in>set ?s. \<not> isspace_char c"
  proof
    fix c assume "c \<in> set ?s"
    with chars have "isdecimal_char c \<or> c = CHR ''.''" by blast
    then show "\<not> isspace_char c" using digit_not_space dot_not_space by blast
  qed
  then have st: "strip ?s = ?s" by (rule strip_no_space)
  have us: "unsign ?s = (False, ?s)"
    using a by (cases a) (auto simp: unsign_def dest: digit_not_special)
  have "\<forall>c\<in>set ?s. \<not> (c = CHR ''e'' \<or> c = CHR ''E'')"
  proof
    fix c assume "c \<in> set ?s"
    with chars have "isdecimal_char c \<or> c = CHR ''.''" by blast
    then show "\<not> (c = CHR ''e'' \<or> c = CHR ''E'')" using digit_not_special by auto
  qed
  then have se: "split_at (\<lambda>c. c = CHR ''e'' \<or> c = CHR ''E'') ?s = (?s, None)"
    by (rule split_at_absent)
  have "\<forall>c\<in>set a. \<not> c = CHR ''.''"
    using a by (auto simp: list_all_iff dest: digit_not_special)
  then have sd: "split_at (\<lambda>c. c = CHR ''.'') ?s = (a, Some b)"
    by (rule split_at_found) simp
  have fn: "float_number ?s"
    unfolding float_number_def sd using a b ne
    by (cases "a = []") (auto intro: digit_part_digits)
  show ?thesis
    by (simp only: py_float_def st float_literal_def us snd_conv Let_def se fn prod.case option.case if_True simp_thms)
qed

lemma process_string_var_float:
  assumes "forced_coercion forced s key = None" "\<not> isdigit s" "isdecimal (replace_dot_once s)"
  shows "process_string_var forced s key = Inr (PyFloat s)"
proof -
  from assms(3) have r: "list_all isdecimal_char (replace_dot_once s)" and rne: "replace_dot_once s \<noteq> []"
    by (simp_all add: isdecimal_def)
  from rne have sne: "s \<noteq> []" by auto
  with assms(2) have "\<not> list_all isdigit_char s" by (simp add: isdigit_def)
  then have "\<not> list_all isdecimal_char s"
    by (auto simp: list_all_iff isdigit_char_def)
  from replace_dot_once_split [OF r this] obtain a b where
    s: "s = a @ CHR ''.'' # b" and a: "list_all isdecimal_char a" and b: "list_all isdecimal_char b" by blast
  have "replace_dot_once (a @ CHR ''.'' # b) = a @ b"
    using a by (induction a) (auto dest: digit_not_special)
  with rne s have "a @ b \<noteq> []" by simp
  from float_literal_decimal [OF a b this] assms(1,2) isdecimal_isdigit [OF assms(3)] sne show ?thesis
    by (simp add: process_string_var_def s)
qed

lemma digit_char_is_digit: "d < 10 \<Longrightarrow> isdecimal_char (digit_char d) \<and> digit_val (digit_char d) = d"
  by (simp add: digit_char_def isdecimal_char_def digit_val_def)

lemma dec_value_snoc: "dec_value (s @ [c]) = 10 * dec_value s + digit_val c"
  by (simp add: dec_value_def)

lemma str_of_nat_digits: "isdecimal (str_of_nat n) \<and> dec_value (str_of_nat n) = n"
proof (induction n rule: str_of_nat.induct)
  case (1 n)
  show ?case
  proof (cases "n < 10")
    case True
    then show ?thesis
      using digit_char_is_digit [of n]
      by (simp add: str_of_nat.simps [of n] isdecimal_def dec_value_def)
  next
    case False
    with "1" have ih: "isdecimal (str_of_nat (n div 10))" "dec_value (str_of_nat (n div 10)) = n div 10"
      by simp_all
    have d: "isdecimal_char (digit_char (n mod 10))" "digit_val (digit_char (n mod 10)) = n mod 10"
      using digit_char_is_digit [of "n mod 10"] by simp_all
    from False ih d show ?thesis
      by (simp add: str_of_nat.simps [of n] isdecimal_def dec_value_snoc)
  qed
qed

lemma forced_none:
  "(\<And>k. key = Some k \<Longrightarrow> forced k = None) \<Longrightarrow> forced_coercion forced value key = None"
  by (simp add: forced_coercion_def split: option.splits)

lemma process_string_var_digits:
  assumes "forced_coercion forced s key = None" "isdecimal s"
  shows "process_string_var forced s key = Inr (PyInt (int (dec_value s)))"
  using assms(1) py_int_digits [OF assms(2)] isdecimal_isdigit [OF assms(2)]
  by (auto simp: process_string_var_def bind_res_def isdigit_def)

lemma set_replace_dot_once: "set (replace_dot_once s) \<subseteq> set s"
  by (induction s) auto

lemma isdigit_isdecimal:
  "\<forall>c\<in>set s. isdigit_char c \<longrightarrow> isdecimal_char c \<Longrightarrow> isdigit s \<Longrightarrow> isdecimal s"
  by (auto simp: isdigit_def isdecimal_def list_all_iff)

lemma strtobool_cases:
  "strtobool s = (if lower s \<in> set truthy_words then Inr 1
                  else if lower s \<in> set falsy_words then Inr 0 else Inl ValueError)"
  by (simp add: strtobool_def Let_def)

text \<open>
  The ladder of the inferred coercion, for a raw string none of whose characters is a
  superscript digit and a key with no forced type: the empty string gives \<open>None\<close>; a
  non-empty string of digits gives the integer it denotes, and the decimal form of
  every natural number is read back as that number; a string that is not all digits
  but becomes all digits when its first dot is deleted gives a float; otherwise a word
  of the truthy vocabulary (in any letter case) gives \<open>True\<close>, a word of the falsy
  vocabulary gives \<open>False\<close>, and every other string is returned unchanged.
\<close>

lemma inferred_coercion_ladder:
  assumes nf: "\<And>k. key = Some k \<Longrightarrow> forced k = None"
    and plain: "\<forall>c\<in>set raw. isdigit_char c \<longrightarrow> isdecimal_char c"
  shows "process_string_var forced [] key = Inr PyNone
    \<and> (isdigit raw \<longrightarrow> process_string_var forced raw key = Inr (PyInt (int (dec_value raw))))
    \<and> process_string_var forced (str_of_nat n) key = Inr (PyInt (int n))
    \<and> (\<not> isdigit raw \<and> isdigit (replace_dot_once raw) \<longrightarrow>
         process_string_var forced raw key = Inr (PyFloat raw))
    \<and> (raw \<noteq> [] \<and> \<not> isdigit raw \<and> \<not> isdigit (replace_dot_once raw) \<longrightarrow>
         process_string_var forced raw key =
           (if lower raw \<in> set truthy_words then Inr (PyBool True)
            else if lower raw \<in> set falsy_words then Inr (PyBool False)
            else Inr (PyStr raw)))"
proof -
  have f: "\<And>v. forced_coercion forced v key = None"
    using nf by (rule forced_none)
  have plain': "\<forall>c\<in>set (replace_dot_once raw). isdigit_char c \<longrightarrow> isdecimal_char c"
    using plain set_replace_dot_once [of raw] by blast
  have 1: "process_string_var forced [] key = Inr PyNone"
    by (simp add: process_string_var_def f)
  have 2: "isdigit raw \<longrightarrow> process_string_var forced raw key = Inr (PyInt (int (dec_value raw)))"
    using process_string_var_digits [OF f] isdigit_isdecimal [OF plain] by blast
  have 3: "process_string_var forced (str_of_nat n) key = Inr (PyInt (int n))"
    using process_string_var_digits [OF f, of "str_of_nat n"] str_of_nat_digits [of n] by simp
  have 4: "\<not> isdigit raw \<and> isdigit (replace_dot_once raw) \<longrightarrow>
         process_string_var forced raw key = Inr (PyFloat raw)"
    using process_string_var_float [OF f] isdigit_isdecimal [OF plain'] by blast
  have 5: "raw \<noteq> [] \<and> \<not> isdigit raw \<and> \<not> isdigit (replace_dot_once raw) \<longrightarrow>
         process_string_var forced raw key =
           (if lower raw \<in> set truthy_words then Inr (PyBool True)
            else if lower raw \<in> set falsy_words then Inr (PyBool False)
            else Inr (PyStr raw))"
    by (simp add: process_string_var_def f bool_of_strtobool_def strtobool_cases bind_res_def)
  from 1 2 3 4 5 show ?thesis by blast
qed

text \<open>
  C2. The ladder breaks on a superscript digit. For the one-character string U+00B2
  (superscript two) \<open>str.isdigit\<close> is true, so with no forced type the coercion takes
  the integer branch, and \<open>int\<close> rejects the character: \<open>process_string_var\<close> raises
  \<open>ValueError\<close>, where the ladder gives either an integer or the string unchanged. The
  same holds in the float branch for a superscript digit next to a dot.
\<close>

theorem C2_superscript_digit_raises:
  "isdigit [CHR 0xB2]
   \<and> process_string_var Map.empty [CHR 0xB2] None = Inl ValueError
   \<and> \<not> isdigit [CHR 0xB2, CHR ''.''] \<and> isdigit (replace_dot_once [CHR 0xB2, CHR ''.''])
   \<and> process_string_var Map.empty [CHR 0xB2, CHR ''.''] None = Inl ValueError"
  by code_simp

lemma py_int_empty: "py_int [] = Inl ValueError"
  by (simp add: py_int_def strip_def unsign_def)

lemma py_float_empty: "py_float [] = Inl ValueError"
  by (simp add: py_float_def strip_def float_literal_def unsign_def lower_def split_at_def
      float_number_def)

lemma py_float_not_none: "py_float s \<noteq> Inr PyNone"
  by (simp add: py_float_def)

text \<open>
  C10. For a key registered with the forced type \<open>int\<close> or \<open>float\<close>, the forced branch
  runs before the rule that turns the empty string into \<open>None\<close>: coercing the empty
  string raises \<open>ValueError\<close>, and no raw string at all is coerced to \<open>None\<close>.
\<close>

theorem C10_forced_numeric_never_null:
  assumes "forced k = Some ''int'' \<or> forced k = Some ''float''"
  shows "process_string_var forced [] (Some k) = Inl ValueError
    \<and> (\<forall>raw. process_string_var forced raw (Some k) \<noteq> Inr PyNone)"
proof -
  from assms show ?thesis
  proof
    assume i: "forced k = Some ''int''"
    have "\<And>raw. process_string_var forced raw (Some k) = bind_res (py_int raw) (\<lambda>n. Inr (PyInt n))"
      by (simp add: process_string_var_def forced_coercion_def i)
    then show ?thesis
      by (auto simp: py_int_empty bind_res_def split: sum.splits)
  next
    assume f: "forced k = Some ''float''"
    have "\<And>raw. process_string_var forced raw (Some k) = py_float raw"
      by (simp add: process_string_var_def forced_coercion_def f)
    then show ?thesis
      by (simp add: py_float_empty py_float_not_none)
  qed
qed

theorem C10_forced_numeric_never_null_witness:
  "process_string_var [''REDIS_PORT'' \<mapsto> ''int''] [] (Some ''REDIS_PORT'') = Inl ValueError
   \<and> process_string_var [''REDIS_PORT'' \<mapsto> ''int''] ''6380'' (Some ''REDIS_PORT'') \<noteq> Inr PyNone"
  using C10_forced_numeric_never_null [of "[''REDIS_PORT'' \<mapsto> ''int'']" "''REDIS_PORT''"]
  by simp

section \<open>Properties of the interpolating reader\<close>

lemma interpolate_plain:
  "depth \<le> 10 \<Longrightarrow> CHR ''%'' \<notin> set s \<Longrightarrow> interpolate_some depth options s = Inr s"
proof (induction s)
  case Nil
  then show ?case by (simp add: interpolate_some.simps [of depth options "[]"])
next
  case (Cons c cs)
  then have "c \<noteq> CHR ''%''" "CHR ''%'' \<notin> set cs" by auto
  with Cons show ?case by (simp add: interpolate_some.simps [of depth options "c # cs"])
qed

lemma basic_plain: "CHR ''%'' \<notin> set value \<Longrightarrow> basic_before_get options value = Inr value"
  by (simp add: basic_before_get_def interpolate_plain)

lemma before_get_plain:
  "CHR ''%'' \<notin> set value \<Longrightarrow>
   before_get forced env options opt value =
     (case env opt of
        Some envvar \<Rightarrow>
          if value = [] \<and> envvar \<noteq> [] then process_string_var forced envvar (Some opt)
          else Inr (PyStr value)
      | None \<Rightarrow> Inr (PyStr value))"
  by (simp add: before_get_def basic_plain)

text \<open>
  C1, as the specification states it, fails: the reader does not return the stored raw
  value of every non-empty option. The stored value \<open>a%%b\<close> is read as \<open>a%b\<close>, because
  the base class rewrites \<open>%%\<close>, and the stored value \<open>50%\<close> is not read at all.
\<close>

theorem C1_env_override_counterexample:
  "getitem \<lparr>config_ini = [''server'' \<mapsto> [(''SECRET_KEY'', ''a%%b''), (''NOTE'', ''50%'')]],
      environ = Map.empty, forced_types = Map.empty,
      floats = \<lparr>float_bool = (\<lambda>l. True), float_repr = (\<lambda>l. l),
                float_trunc = (\<lambda>l. Inl ValueError)\<rparr>\<rparr> ''server'' ''SECRET_KEY''
     = Inr (PyStr ''a%b'')
   \<and> getitem \<lparr>config_ini = [''server'' \<mapsto> [(''SECRET_KEY'', ''a%%b''), (''NOTE'', ''50%'')]],
      environ = Map.empty, forced_types = Map.empty,
      floats = \<lparr>float_bool = (\<lambda>l. True), float_repr = (\<lambda>l. l),
                float_trunc = (\<lambda>l. Inl ValueError)\<rparr>\<rparr> ''server'' ''SECRET_KEY''
     \<noteq> Inr (PyStr ''a%%b'')
   \<and> getitem \<lparr>config_ini = [''server'' \<mapsto> [(''SECRET_KEY'', ''a%%b''), (''NOTE'', ''50%'')]],
      environ = Map.empty, forced_types = Map.empty,
      floats = \<lparr>float_bool = (\<lambda>l. True), float_repr = (\<lambda>l. l),
                float_trunc = (\<lambda>l. Inl ValueError)\<rparr>\<rparr> ''server'' ''NOTE''
     = Inl InterpolationSyntaxError"
  by code_simp

text \<open>
  C1, amended. Reading option \<open>opt\<close> with stored value \<open>raw\<close>, where \<open>options\<close> are the
  stored values of the section: when the base class expands \<open>raw\<close> to a non-empty text,
  that text is returned, whatever the environment holds, and a stored value without
  \<open>%\<close> expands to itself; when it expands to the empty string and the environment
  variable named \<open>opt\<close> is set to a non-empty string, the result is that string run
  through the coercion with key \<open>opt\<close> (with no forced types, the variable \<open>42\<close> gives
  the integer 42, and a stored \<open>7\<close> wins over it); when it expands to the empty string
  and the variable is unset or empty, the result is the empty string, not \<open>None\<close>.
\<close>

theorem C1_env_override_amended:
  "(basic_before_get options raw = Inr v \<and> v \<noteq> [] \<longrightarrow>
      before_get forced env options opt raw = Inr (PyStr v))
   \<and> (CHR ''%'' \<notin> set raw \<longrightarrow> basic_before_get options raw = Inr raw)
   \<and> (basic_before_get options raw = Inr [] \<and> env opt = Some e \<and> e \<noteq> [] \<longrightarrow>
        before_get forced env options opt raw = process_string_var forced e (Some opt))
   \<and> before_get Map.empty [opt \<mapsto> ''42''] options opt [] = Inr (PyInt 42)
   \<and> before_get Map.empty [opt \<mapsto> ''42''] options opt ''7'' = Inr (PyStr ''7'')
   \<and> (basic_before_get options raw = Inr [] \<and> (env opt = None \<or> env opt = Some []) \<longrightarrow>
        before_get forced env options opt raw = Inr (PyStr []))"
proof -
  have d: "isdecimal ''42''" "int (dec_value ''42'') = 42"
    by (simp_all add: isdecimal_def isdecimal_char_def dec_value_def digit_val_def)
  have c: "process_string_var Map.empty ''42'' (Some opt) = Inr (PyInt 42)"
    using process_string_var_digits [of Map.empty "''42''" "Some opt"] d
    by (simp add: forced_coercion_def)
  have 1: "basic_before_get options raw = Inr v \<and> v \<noteq> [] \<longrightarrow>
      before_get forced env options opt raw = Inr (PyStr v)"
    by (simp add: before_get_def split: option.splits)
  have 2: "CHR ''%'' \<notin> set raw \<longrightarrow> basic_before_get options raw = Inr raw"
    by (simp add: basic_plain)
  have 3: "basic_before_get options raw = Inr [] \<and> env opt = Some e \<and> e \<noteq> [] \<longrightarrow>
        before_get forced env options opt raw = process_string_var forced e (Some opt)"
    by (simp add: before_get_def)
  have 4: "before_get Map.empty [opt \<mapsto> ''42''] options opt [] = Inr (PyInt 42)"
    using c by (simp add: before_get_plain)
  have 5: "before_get Map.empty [opt \<mapsto> ''42''] options opt ''7'' = Inr (PyStr ''7'')"
    by (simp add: before_get_plain)
  have 6: "basic_before_get options raw = Inr [] \<and> (env opt = None \<or> env opt = Some []) \<longrightarrow>
        before_get forced env options opt raw = Inr (PyStr [])"
    by (auto simp: before_get_def)
  from 1 2 3 4 5 6 show ?thesis by blast
qed

theorem C1_env_override_amended_witness:
  "before_get Map.empty [''DATABASE_URL'' \<mapsto> ''sqlite://'']
      [''DATABASE_HOST'' \<mapsto> ''db'', ''DATABASE_URL'' \<mapsto> ''mysql://%(DATABASE_HOST)s/ctfd'']
      ''DATABASE_URL'' ''mysql://%(DATABASE_HOST)s/ctfd'' = Inr (PyStr ''mysql://db/ctfd'')
   \<and> before_get Map.empty [''REDIS_PORT'' \<mapsto> ''42''] [''REDIS_PORT'' \<mapsto> []]
        ''REDIS_PORT'' [] = Inr (PyInt 42)
   \<and> before_get Map.empty [''REDIS_PORT'' \<mapsto> []] [''REDIS_PORT'' \<mapsto> []]
        ''REDIS_PORT'' [] = Inr (PyStr [])
   \<and> before_get Map.empty Map.empty [''REDIS_PORT'' \<mapsto> []]
        ''REDIS_PORT'' [] = Inr (PyStr [])"
proof -
  have x: "basic_before_get
      [''DATABASE_HOST'' \<mapsto> ''db'', ''DATABASE_URL'' \<mapsto> ''mysql://%(DATABASE_HOST)s/ctfd'']
      ''mysql://%(DATABASE_HOST)s/ctfd'' = Inr ''mysql://db/ctfd''"
    by code_simp
  have y: "basic_before_get [''REDIS_PORT'' \<mapsto> []] [] = Inr []"
    by (simp add: basic_plain)
  show ?thesis
    using C1_env_override_amended [of
        "[''DATABASE_HOST'' \<mapsto> ''db'', ''DATABASE_URL'' \<mapsto> ''mysql://%(DATABASE_HOST)s/ctfd'']"
        "''mysql://%(DATABASE_HOST)s/ctfd''" "''mysql://db/ctfd''" Map.empty
        "[''DATABASE_URL'' \<mapsto> ''sqlite://'']" "''DATABASE_URL''" "''42''"]
      C1_env_override_amended [of "[''REDIS_PORT'' \<mapsto> []]" "[]" "[]" Map.empty
        "[''REDIS_PORT'' \<mapsto> ''42'']" "''REDIS_PORT''" "''42''"]
      C1_env_override_amended [of "[''REDIS_PORT'' \<mapsto> []]" "[]" "[]" Map.empty
        "[''REDIS_PORT'' \<mapsto> []]" "''REDIS_PORT''" "''42''"]
      C1_env_override_amended [of "[''REDIS_PORT'' \<mapsto> []]" "[]" "[]" Map.empty
        Map.empty "''REDIS_PORT''" "''42''"]
      x y
    by simp
qed

section \<open>Properties of the resolved options\<close>

text \<open>
  C8. When the \<open>optional\<close> section exists and has no \<open>FORCE_HTTPS\<close> entry, the resolved
  \<open>FORCE_HTTPS\<close> is \<open>False\<close>, whatever the environment holds: the missing option reads as
  \<open>None\<close>, which the empty-string default leaves alone and the boolean coercion maps to
  \<open>False\<close>. The default \<open>True\<close> applies when the entry is present with an empty value and
  the environment variable is unset.
\<close>

theorem C8_force_https_absent:
  "(config_ini w ''optional'' = Some sec \<and> map_of sec ''FORCE_HTTPS'' = None \<longrightarrow>
      FORCE_HTTPS w = Inr (PyBool False))
   \<and> (config_ini w ''optional'' = Some sec \<and> map_of sec ''FORCE_HTTPS'' = Some []
        \<and> environ w ''FORCE_HTTPS'' = None \<longrightarrow>
      FORCE_HTTPS w = Inr (PyBool True))"
  by (simp add: FORCE_HTTPS_def section_get_def bind_res_def empty_str_cast_def
      process_boolean_str_def before_get_plain)

theorem C8_force_https_absent_witness:
  "FORCE_HTTPS \<lparr>config_ini = [''optional'' \<mapsto> [(''REVERSE_PROXY'', '''')]],
      environ = [''FORCE_HTTPS'' \<mapsto> ''true''], forced_types = Map.empty,
      floats = \<lparr>float_bool = (\<lambda>l. True), float_repr = (\<lambda>l. l),
                float_trunc = (\<lambda>l. Inl ValueError)\<rparr>\<rparr> = Inr (PyBool False)
   \<and> FORCE_HTTPS \<lparr>config_ini = [''optional'' \<mapsto> [(''FORCE_HTTPS'', '''')]],
      environ = Map.empty, forced_types = Map.empty,
      floats = \<lparr>float_bool = (\<lambda>l. True), float_repr = (\<lambda>l. l),
                float_trunc = (\<lambda>l. Inl ValueError)\<rparr>\<rparr> = Inr (PyBool True)"
  using C8_force_https_absent [of "\<lparr>config_ini = [''optional'' \<mapsto> [(''REVERSE_PROXY'', '''')]],
      environ = [''FORCE_HTTPS'' \<mapsto> ''true''], forced_types = Map.empty,
      floats = \<lparr>float_bool = (\<lambda>l. True), float_repr = (\<lambda>l. l),
                float_trunc = (\<lambda>l. Inl ValueError)\<rparr>\<rparr>" "[(''REVERSE_PROXY'', '''')]"]
    C8_force_https_absent [of "\<lparr>config_ini = [''optional'' \<mapsto> [(''FORCE_HTTPS'', '''')]],
      environ = Map.empty, forced_types = Map.empty,
      floats = \<lparr>float_bool = (\<lambda>l. True), float_repr = (\<lambda>l. l),
                float_trunc = (\<lambda>l. Inl ValueError)\<rparr>\<rparr>" "[(''FORCE_HTTPS'', '''')]"]
  by simp

lemma session_lifetime_unset:
  "config_ini w ''security'' = Some sec \<Longrightarrow> map_of sec ''PERMANENT_SESSION_LIFETIME'' = None \<Longrightarrow>
   PERMANENT_SESSION_LIFETIME w = Inr (PyInt 604800)"
  by (simp add: PERMANENT_SESSION_LIFETIME_def section_getint_def bind_res_def py_or_def truthy_def)

lemma session_lifetime_empty:
  "config_ini w ''security'' = Some sec \<Longrightarrow> map_of sec ''PERMANENT_SESSION_LIFETIME'' = Some [] \<Longrightarrow>
   environ w ''PERMANENT_SESSION_LIFETIME'' = None \<or> environ w ''PERMANENT_SESSION_LIFETIME'' = Some [] \<Longrightarrow>
   PERMANENT_SESSION_LIFETIME w = Inl ValueError"
  by (auto simp: PERMANENT_SESSION_LIFETIME_def section_getint_def bind_res_def before_get_plain
      py_int_val_def py_int_empty)

text \<open>
  C7. When the \<open>security\<close> section holds \<open>PERMANENT_SESSION_LIFETIME\<close> with the empty
  string and no environment variable of that name is set, \<open>getint\<close> applies \<open>int\<close> to the
  empty string: the class body raises \<open>ValueError\<close> and the default 604800 is not
  reached. With the option missing from the section the value is 604800.
\<close>

theorem C7_empty_lifetime_raises:
  "PERMANENT_SESSION_LIFETIME \<lparr>config_ini = [''security'' \<mapsto> [(''PERMANENT_SESSION_LIFETIME'', '''')]],
      environ = Map.empty, forced_types = Map.empty,
      floats = \<lparr>float_bool = (\<lambda>l. True), float_repr = (\<lambda>l. l),
                float_trunc = (\<lambda>l. Inl ValueError)\<rparr>\<rparr> = Inl ValueError
   \<and> PERMANENT_SESSION_LIFETIME \<lparr>config_ini = [''security'' \<mapsto> []],
      environ = Map.empty, forced_types = Map.empty,
      floats = \<lparr>float_bool = (\<lambda>l. True), float_repr = (\<lambda>l. l),
                float_trunc = (\<lambda>l. Inl ValueError)\<rparr>\<rparr> = Inr (PyInt 604800)"
  by (simp add: session_lifetime_unset session_lifetime_empty)

section \<open>Properties of the secret key\<close>

lemma length_urandom: "length (urandom rnd n) = n"
  by (simp add: urandom_def)

text \<open>
  C5. \<open>gen_secret_key\<close> always returns a key, and the key is not empty. When the secret
  file cannot be read or is empty, the key is the 64 fresh bytes of \<open>os.urandom(64)\<close>,
  whether or not writing them succeeds; otherwise it is the content of the file and the
  file system is unchanged.
\<close>

theorem C5_secret_key_total:
  "\<exists>key fs'. gen_secret_key rnd fs = Inr (key, fs') \<and> key \<noteq> []
     \<and> (read_secret fs = Inl OSError \<or> read_secret fs = Inr [] \<longrightarrow>
          key = urandom rnd 64 \<and> length key = 64)
     \<and> (\<forall>content. read_secret fs = Inr content \<and> content \<noteq> [] \<longrightarrow> key = content \<and> fs' = fs)"
proof (cases "read_secret fs")
  case (Inl e)
  then have e: "e = OSError"
    by (auto simp: read_secret_def split: option.splits if_splits)
  have ne: "urandom rnd 64 \<noteq> []"
    using length_urandom [of rnd 64] by auto
  show ?thesis
    using Inl e ne length_urandom [of rnd 64]
    by (cases "on_write fs") (simp_all add: gen_secret_key_def write_secret_def Let_def)
next
  case (Inr content)
  have ne: "urandom rnd 64 \<noteq> []"
    using length_urandom [of rnd 64] by auto
  show ?thesis
  proof (cases "content = []")
    case True
    with Inr ne length_urandom [of rnd 64] show ?thesis
      by (cases "on_write fs") (simp_all add: gen_secret_key_def write_secret_def Let_def)
  next
    case False
    with Inr show ?thesis
      by (simp add: gen_secret_key_def)
  qed
qed

theorem C5_secret_key_total_witness:
  "\<exists>key fs'. gen_secret_key (\<lambda>i. of_nat i)
       \<lparr>secret_file = None, readable = True, on_write = OpenFails\<rparr> = Inr (key, fs')
     \<and> length key = 64"
  using C5_secret_key_total [of "\<lambda>i. of_nat i"
      "\<lparr>secret_file = None, readable = True, on_write = OpenFails\<rparr>"]
  by (auto simp: read_secret_def)

section \<open>Properties of the merge of the extra section\<close>

lemma merge_extra_step:
  "Config k' = None \<Longrightarrow> merge_extra Config ((k', v') # items) = merge_extra (Config(k' \<mapsto> v')) items"
  by simp

lemma merge_extra_stop:
  "Config k' \<noteq> None \<Longrightarrow> merge_extra Config ((k', v') # items) = (Some ValueError, Config)"
  by simp

lemma merge_extra_keeps:
  "Config k \<noteq> None \<Longrightarrow> snd (merge_extra Config items) k = Config k"
proof (induction items arbitrary: Config)
  case Nil
  then show ?case by simp
next
  case (Cons kv items)
  obtain k' v' where kv: "kv = (k', v')" by (cases kv)
  show ?case
  proof (cases "Config k' = None")
    case True
    with Cons.prems have ne: "k \<noteq> k'" by auto
    then have same: "(Config(k' \<mapsto> v')) k = Config k" by simp
    with Cons.prems have "(Config(k' \<mapsto> v')) k \<noteq> None" by simp
    then have "snd (merge_extra (Config(k' \<mapsto> v')) items) k = (Config(k' \<mapsto> v')) k"
      by (rule Cons.IH)
    then show ?thesis
      unfolding kv merge_extra_step [of Config k', OF True] same .
  next
    case False
    then show ?thesis
      unfolding kv merge_extra_stop [of Config k', OF False] by simp
  qed
qed

lemma merge_extra_error:
  "fst (merge_extra Config items) = None \<or> fst (merge_extra Config items) = Some ValueError"
proof (induction items arbitrary: Config)
  case Nil
  then show ?case by simp
next
  case (Cons kv items)
  obtain k' v' where kv: "kv = (k', v')" by (cases kv)
  show ?case
  proof (cases "Config k' = None")
    case True
    show ?thesis
      unfolding kv merge_extra_step [of Config k', OF True] by (rule Cons.IH)
  next
    case False
    show ?thesis
      unfolding kv merge_extra_stop [of Config k', OF False] by simp
  qed
qed

lemma merge_extra_sets:
  "fst (merge_extra Config items) = None \<Longrightarrow> (k, v) \<in> set items \<Longrightarrow>
   snd (merge_extra Config items) k = Some v"
proof (induction items arbitrary: Config)
  case Nil
  then show ?case by simp
next
  case (Cons kv items)
  obtain k' v' where kv: "kv = (k', v')" by (cases kv)
  have free: "Config k' = None"
  proof (rule ccontr)
    assume "Config k' \<noteq> None"
    from merge_extra_stop [of Config k', OF this] Cons.prems(1) kv show False by simp
  qed
  note step = merge_extra_step [of Config k', OF free]
  from Cons.prems(1) have ok: "fst (merge_extra (Config(k' \<mapsto> v')) items) = None"
    unfolding kv step .
  show ?case
  proof (cases "(k, v) = (k', v')")
    case True
    have "(Config(k' \<mapsto> v')) k' \<noteq> None" by simp
    then have "snd (merge_extra (Config(k' \<mapsto> v')) items) k' = (Config(k' \<mapsto> v')) k'"
      by (rule merge_extra_keeps)
    then have "snd (merge_extra (Config(k' \<mapsto> v')) items) k' = Some v'" by simp
    with True show ?thesis unfolding kv step by simp
  next
    case False
    with Cons.prems(2) kv have "(k, v) \<in> set items" by auto
    from Cons.IH [OF ok this] show ?thesis unfolding kv step .
  qed
qed

lemma merge_extra_raises_iff:
  "distinct (map fst items) \<Longrightarrow>
   fst (merge_extra Config items) = Some ValueError \<longleftrightarrow> (\<exists>k \<in> set (map fst items). Config k \<noteq> None)"
proof (induction items arbitrary: Config)
  case Nil
  then show ?case by simp
next
  case (Cons kv items)
  obtain k' v' where kv: "kv = (k', v')" by (cases kv)
  from Cons.prems kv have d: "distinct (map fst items)" and fresh: "k' \<notin> set (map fst items)"
    by simp_all
  show ?case
  proof (cases "Config k' = None")
    case True
    have "(\<exists>k \<in> set (map fst items). (Config(k' \<mapsto> v')) k \<noteq> None)
        \<longleftrightarrow> (\<exists>k \<in> set (map fst items). Config k \<noteq> None)"
      using fresh by (metis fun_upd_other)
    moreover have "(\<exists>k \<in> set (map fst (kv # items)). Config k \<noteq> None)
        \<longleftrightarrow> (\<exists>k \<in> set (map fst items). Config k \<noteq> None)"
      using True kv by simp
    ultimately show ?thesis
      using Cons.IH [OF d, of "Config(k' \<mapsto> v')"]
      unfolding kv merge_extra_step [of Config k', OF True] by blast
  next
    case False
    have "\<exists>k \<in> set (map fst (kv # items)). Config k \<noteq> None"
      using False kv by simp
    then show ?thesis
      unfolding kv merge_extra_stop [of Config k', OF False] by simp
  qed
qed

lemma merge_extra_append:
  "fst (merge_extra Config pre) = None \<Longrightarrow>
   merge_extra Config (pre @ tl_items) = merge_extra (snd (merge_extra Config pre)) tl_items"
proof (induction pre arbitrary: Config)
  case Nil
  then show ?case by simp
next
  case (Cons kv pre)
  obtain k' v' where kv: "kv = (k', v')" by (cases kv)
  have free: "Config k' = None"
  proof (rule ccontr)
    assume "Config k' \<noteq> None"
    from merge_extra_stop [of Config k', OF this] Cons.prems kv show False by simp
  qed
  note step = merge_extra_step [of Config k', OF free]
  from Cons.prems have "fst (merge_extra (Config(k' \<mapsto> v')) pre) = None"
    unfolding kv step .
  from Cons.IH [OF this] show ?case
    unfolding kv append_Cons step .
qed

text \<open>
  C6. For an extra section whose keys are distinct, as the parser delivers them, the
  merge raises the \<open>ValueError\<close> of the collision check if and only if some extra key is
  already an attribute of the configuration object; it raises nothing else. Whether it
  raises or not, every attribute the object had keeps its value, and when it does not
  raise every extra pair can be read back from the object.
\<close>

theorem C6_extra_collision:
  assumes "distinct (map fst items)"
  shows "(fst (merge_extra Config items) = Some ValueError
           \<longleftrightarrow> (\<exists>k \<in> set (map fst items). Config k \<noteq> None))
    \<and> (fst (merge_extra Config items) \<noteq> Some ValueError \<longrightarrow> fst (merge_extra Config items) = None)
    \<and> (\<forall>k. Config k \<noteq> None \<longrightarrow> snd (merge_extra Config items) k = Config k)
    \<and> (fst (merge_extra Config items) = None \<longrightarrow>
         (\<forall>(k, v) \<in> set items. snd (merge_extra Config items) k = Some v))"
  using merge_extra_raises_iff [OF assms, of Config] merge_extra_error [of Config items]
    merge_extra_keeps [of Config _ items] merge_extra_sets [of Config items]
  by auto

theorem C6_extra_collision_witness:
  "fst (merge_extra [''SECRET_KEY'' \<mapsto> PyStr ''k''] [(''SECRET_KEY'', PyStr ''mine'')])
     = Some ValueError
   \<and> snd (merge_extra [''SECRET_KEY'' \<mapsto> PyStr ''k''] [(''SECRET_KEY'', PyStr ''mine'')])
       ''SECRET_KEY'' = Some (PyStr ''k'')
   \<and> fst (merge_extra [''SECRET_KEY'' \<mapsto> PyStr ''k''] [(''MY_CUSTOM_OPTION'', PyStr ''on'')])
       = None
   \<and> snd (merge_extra [''SECRET_KEY'' \<mapsto> PyStr ''k''] [(''MY_CUSTOM_OPTION'', PyStr ''on'')])
       ''MY_CUSTOM_OPTION'' = Some (PyStr ''on'')"
  using C6_extra_collision [of "[(''SECRET_KEY'', PyStr ''mine'')]" "[''SECRET_KEY'' \<mapsto> PyStr ''k'']"]
    C6_extra_collision [of "[(''MY_CUSTOM_OPTION'', PyStr ''on'')]" "[''SECRET_KEY'' \<mapsto> PyStr ''k'']"]
  by simp

text \<open>
  C9. The merge is not atomic. When the extra pairs \<open>pre\<close> come first, have distinct keys
  and collide with nothing, and the next key \<open>k\<close> is already an attribute, the merge
  raises at \<open>k\<close> and the object it leaves behind holds every pair of \<open>pre\<close>, none of
  which it held before.
\<close>

theorem C9_merge_not_atomic:
  assumes "distinct (map fst pre)"
    and "\<forall>k' \<in> set (map fst pre). Config k' = None"
    and "Config k \<noteq> None"
  shows "fst (merge_extra Config (pre @ (k, v) # rest)) = Some ValueError
    \<and> (\<forall>(k', v') \<in> set pre.
          Config k' = None \<and> snd (merge_extra Config (pre @ (k, v) # rest)) k' = Some v')"
proof -
  have "fst (merge_extra Config pre) \<noteq> Some ValueError"
    using merge_extra_raises_iff [OF assms(1), of Config] assms(2) by auto
  with merge_extra_error [of Config pre] have ok: "fst (merge_extra Config pre) = None"
    by blast
  have held: "snd (merge_extra Config pre) k \<noteq> None"
    using merge_extra_keeps [of Config k pre, OF assms(3)] assms(3) by simp
  have eq: "merge_extra Config (pre @ (k, v) # rest) = (Some ValueError, snd (merge_extra Config pre))"
    using merge_extra_append [OF ok, of "(k, v) # rest"] held by simp
  show ?thesis
    using eq merge_extra_sets [OF ok] assms(2) by fastforce
qed

theorem C9_merge_not_atomic_witness:
  "load_extra \<lparr>config_ini = [''extra'' \<mapsto> [(''MY_CUSTOM_OPTION'', ''on''), (''SECRET_KEY'', ''mine''),
        (''LATER'', ''x'')]],
      environ = Map.empty, forced_types = Map.empty,
      floats = \<lparr>float_bool = (\<lambda>l. True), float_repr = (\<lambda>l. l),
                float_trunc = (\<lambda>l. Inl ValueError)\<rparr>\<rparr> [''SECRET_KEY'' \<mapsto> PyStr ''k'']
     = merge_extra [''SECRET_KEY'' \<mapsto> PyStr ''k'']
         ([(''MY_CUSTOM_OPTION'', PyStr ''on'')] @ (''SECRET_KEY'', PyStr ''mine'')
            # [(''LATER'', PyStr ''x'')])
   \<and> fst (merge_extra [''SECRET_KEY'' \<mapsto> PyStr ''k'']
         ([(''MY_CUSTOM_OPTION'', PyStr ''on'')] @ (''SECRET_KEY'', PyStr ''mine'')
            # [(''LATER'', PyStr ''x'')])) = Some ValueError
   \<and> snd (merge_extra [''SECRET_KEY'' \<mapsto> PyStr ''k'']
         ([(''MY_CUSTOM_OPTION'', PyStr ''on'')] @ (''SECRET_KEY'', PyStr ''mine'')
            # [(''LATER'', PyStr ''x'')])) ''MY_CUSTOM_OPTION'' = Some (PyStr ''on'')
   \<and> [''SECRET_KEY'' \<mapsto> PyStr ''k''] ''MY_CUSTOM_OPTION'' = None"
proof -
  have 1: "distinct (map fst [(''MY_CUSTOM_OPTION'', PyStr ''on'')])" by simp
  have 2: "\<forall>k' \<in> set (map fst [(''MY_CUSTOM_OPTION'', PyStr ''on'')]).
             [''SECRET_KEY'' \<mapsto> PyStr ''k''] k' = None" by simp
  have 3: "[''SECRET_KEY'' \<mapsto> PyStr ''k''] ''SECRET_KEY'' \<noteq> None" by simp
  have l: "load_extra \<lparr>config_ini = [''extra'' \<mapsto> [(''MY_CUSTOM_OPTION'', ''on''),
        (''SECRET_KEY'', ''mine''), (''LATER'', ''x'')]],
      environ = Map.empty, forced_types = Map.empty,
      floats = \<lparr>float_bool = (\<lambda>l. True), float_repr = (\<lambda>l. l),
                float_trunc = (\<lambda>l. Inl ValueError)\<rparr>\<rparr> [''SECRET_KEY'' \<mapsto> PyStr ''k'']
     = merge_extra [''SECRET_KEY'' \<mapsto> PyStr ''k'']
         ([(''MY_CUSTOM_OPTION'', PyStr ''on'')] @ (''SECRET_KEY'', PyStr ''mine'')
            # [(''LATER'', PyStr ''x'')])"
    by (simp add: load_extra_def ini_items_def before_get_plain bind_res_def)
  show ?thesis
    using C9_merge_not_atomic [OF 1 2 3, of "PyStr ''mine''" "[(''LATER'', PyStr ''x'')]"] l
    by simp
qed

section \<open>Properties of the derived connection strings\<close>

lemma cache_example_full:
  "CACHE_REDIS_URL \<lparr>config_ini = [''server'' \<mapsto> [(''REDIS_URL'', ''''), (''REDIS_HOST'', ''cache''),
        (''REDIS_PROTOCOL'', ''''), (''REDIS_USER'', ''u''), (''REDIS_PASSWORD'', ''p''),
        (''REDIS_PORT'', ''6380''), (''REDIS_DB'', ''2'')]],
      environ = Map.empty, forced_types = Map.empty,
      floats = \<lparr>float_bool = (\<lambda>l. True), float_repr = (\<lambda>l. l),
                float_trunc = (\<lambda>l. Inl ValueError)\<rparr>\<rparr>
   = Inr (PyStr ''redis://u:p@cache:6380/2'')"
  by code_simp

lemma cache_example_host_only:
  "CACHE_REDIS_URL \<lparr>config_ini = [''server'' \<mapsto> [(''REDIS_URL'', ''''), (''REDIS_HOST'', ''cache''),
        (''REDIS_PROTOCOL'', ''''), (''REDIS_USER'', ''''), (''REDIS_PASSWORD'', ''''),
        (''REDIS_PORT'', ''''), (''REDIS_DB'', '''')]],
      environ = Map.empty, forced_types = Map.empty,
      floats = \<lparr>float_bool = (\<lambda>l. True), float_repr = (\<lambda>l. l),
                float_trunc = (\<lambda>l. Inl ValueError)\<rparr>\<rparr>
   = Inr (PyStr ''redis://@cache:6379/0'')"
  by code_simp

text \<open>
  C3, as the specification states it, fails: with \<open>REDIS_HOST\<close> set to \<open>cache\<close> and
  neither user nor password, the specification's composition
  \<open>protocol://[user[:password]@]host:port/db\<close> drops the \<open>@\<close> with the user part and
  gives \<open>redis://cache:6379/0\<close>, while the class body gives \<open>redis://@cache:6379/0\<close>.
\<close>

theorem C3_cache_url_counterexample:
  "CACHE_REDIS_URL \<lparr>config_ini = [''server'' \<mapsto> [(''REDIS_URL'', ''''), (''REDIS_HOST'', ''cache''),
        (''REDIS_PROTOCOL'', ''''), (''REDIS_USER'', ''''), (''REDIS_PASSWORD'', ''''),
        (''REDIS_PORT'', ''''), (''REDIS_DB'', '''')]],
      environ = Map.empty, forced_types = Map.empty,
      floats = \<lparr>float_bool = (\<lambda>l. True), float_repr = (\<lambda>l. l),
                float_trunc = (\<lambda>l. Inl ValueError)\<rparr>\<rparr>
   \<noteq> Inr (PyStr (spec_cache_redis_url ''redis'' None None ''cache'' ''6379'' ''0''))"
  unfolding cache_example_host_only by (simp add: spec_cache_redis_url_def)

text \<open>
  C3, amended. When \<open>REDIS_URL\<close> is truthy or \<open>REDIS_HOST\<close> is \<open>None\<close>, the cache URL is
  \<open>REDIS_URL\<close> itself (possibly \<open>None\<close>). Otherwise, when the user name is falsy or a
  string, it is the protocol, \<open>://\<close>, the user name if truthy, a colon and the password
  if the password is truthy, then always \<open>@\<close>, the host, a colon, the port, a slash and
  the database number: the two segments are omitted independently and the \<open>@\<close> stays.
  The example of the specification gives \<open>redis://u:p@cache:6380/2\<close>.
\<close>

theorem C3_cache_url_amended:
  "(truthy fo url \<or> host = PyNone \<longrightarrow>
      cache_redis_url fo url host proto user password port db = Inr url)
   \<and> (\<not> truthy fo url \<and> host \<noteq> PyNone \<and> (truthy fo user \<longrightarrow> (\<exists>u. user = PyStr u)) \<longrightarrow>
      cache_redis_url fo url host proto user password port db =
        Inr (PyStr (py_str fo proto @ ''://''
                    @ (if truthy fo user then py_str fo user else [])
                    @ (if truthy fo password then '':'' @ py_str fo password else [])
                    @ ''@'' @ py_str fo host @ '':'' @ py_str fo port @ ''/'' @ py_str fo db)))
   \<and> CACHE_REDIS_URL \<lparr>config_ini = [''server'' \<mapsto> [(''REDIS_URL'', ''''), (''REDIS_HOST'', ''cache''),
        (''REDIS_PROTOCOL'', ''''), (''REDIS_USER'', ''u''), (''REDIS_PASSWORD'', ''p''),
        (''REDIS_PORT'', ''6380''), (''REDIS_DB'', ''2'')]],
      environ = Map.empty, forced_types = Map.empty,
      floats = \<lparr>float_bool = (\<lambda>l. True), float_repr = (\<lambda>l. l),
                float_trunc = (\<lambda>l. Inl ValueError)\<rparr>\<rparr>
     = Inr (PyStr ''redis://u:p@cache:6380/2'')"
proof -
  have 1: "truthy fo url \<or> host = PyNone \<longrightarrow>
      cache_redis_url fo url host proto user password port db = Inr url"
    by (simp add: cache_redis_url_def)
  have 2: "\<not> truthy fo url \<and> host \<noteq> PyNone \<and> (truthy fo user \<longrightarrow> (\<exists>u. user = PyStr u)) \<longrightarrow>
      cache_redis_url fo url host proto user password port db =
        Inr (PyStr (py_str fo proto @ ''://''
                    @ (if truthy fo user then py_str fo user else [])
                    @ (if truthy fo password then '':'' @ py_str fo password else [])
                    @ ''@'' @ py_str fo host @ '':'' @ py_str fo port @ ''/'' @ py_str fo db))"
    by (auto simp: cache_redis_url_def bind_res_def py_str_def)
  from 1 2 cache_example_full show ?thesis by blast
qed

theorem C3_cache_url_amended_witness:
  "cache_redis_url \<lparr>float_bool = (\<lambda>l. True), float_repr = (\<lambda>l. l),
        float_trunc = (\<lambda>l. Inl ValueError)\<rparr>
      (PyStr ''redis://elsewhere'') (PyStr ''cache'') (PyStr ''redis'') PyNone PyNone
      (PyInt 6379) (PyInt 0) = Inr (PyStr ''redis://elsewhere'')
   \<and> cache_redis_url \<lparr>float_bool = (\<lambda>l. True), float_repr = (\<lambda>l. l),
        float_trunc = (\<lambda>l. Inl ValueError)\<rparr>
      PyNone (PyStr ''cache'') (PyStr ''redis'') PyNone (PyStr ''p'')
      (PyStr ''6380'') (PyStr ''2'') = Inr (PyStr ''redis://:p@cache:6380/2'')"
  using C3_cache_url_amended [of "\<lparr>float_bool = (\<lambda>l. True), float_repr = (\<lambda>l. l),
        float_trunc = (\<lambda>l. Inl ValueError)\<rparr>" "PyStr ''redis://elsewhere''" "PyStr ''cache''"
        "PyStr ''redis''" PyNone PyNone "PyInt 6379" "PyInt 0"]
    C3_cache_url_amended [of "\<lparr>float_bool = (\<lambda>l. True), float_repr = (\<lambda>l. l),
        float_trunc = (\<lambda>l. Inl ValueError)\<rparr>" PyNone "PyStr ''cache''"
        "PyStr ''redis''" PyNone "PyStr ''p''" "PyStr ''6380''" "PyStr ''2''"]
  by (simp add: truthy_def py_str_def)







end
